theory Spec2Isabelle
  imports Main "HOL-Library.Word" "HOL-Library.AList"
begin

section \<open>The apps metrics collector (pkg/apps/metrics/prometheus/metrics.go)\<close>

text \<open>
  The collector is scraped by a pull-based metrics registry. \<open>Describe\<close> sends the
  declared descriptors, \<open>Collect\<close> lists the replication controllers, classifies each
  one and sends the samples. The channel \<open>ch\<close> is modelled by the list of values sent on
  it, in the order of the sends.
\<close>

subsection \<open>Values of the source\<close>

type_synonym int64 = "64 word"

text \<open>
  Go's \<open>strings.Join\<close>, \<open>strings.Split\<close> and the verb \<open>%d\<close> of \<open>fmt.Sprintf\<close>.
  Strings are byte lists; \<open>Split\<close> takes the one-byte separator the collector uses.
\<close>

fun Join :: "string list \<Rightarrow> string \<Rightarrow> string" where
  "Join [] sep = []"
| "Join [x] sep = x"
| "Join (x # y # ys) sep = x @ sep @ Join (y # ys) sep"

fun Split :: "string \<Rightarrow> char \<Rightarrow> string list" where
  "Split [] sep = [[]]"
| "Split (c # cs) sep =
     (if c = sep then [] # Split cs sep
      else (case Split cs sep of [] \<Rightarrow> [[c]] | p # ps \<Rightarrow> (c # p) # ps))"

fun digits :: "nat \<Rightarrow> string" where
  "digits n =
     (if n < 10 then [char_of (48 + n)]
      else digits (n div 10) @ [char_of (48 + n mod 10)])"

declare digits.simps [simp del]

definition Sprintf_d :: "int64 \<Rightarrow> string" where
  "Sprintf_d g =
     (if sint g < 0 then CHR ''-'' # digits (nat (- sint g)) else digits (nat (sint g)))"

text \<open>
  \<open>strings.ToLower\<close> belongs to Go's standard library and maps every Unicode capital,
  by tables that are not part of the source. The collector is therefore modelled for an
  arbitrary function \<open>ToLower\<close>, a parameter of \<open>active\<close>, \<open>visit\<close>, \<open>loop\<close> and
  \<open>Collect_apps\<close>, and every property below holds for whatever function the library
  provides. \<open>ToLower_ascii\<close> is what \<open>strings.ToLower\<close> returns on a string of ASCII bytes
  (the capitals A to Z become a to z, every other byte stays); it is used to evaluate the
  model on ASCII strings only.
\<close>

definition lower_byte :: "char \<Rightarrow> char" where
  "lower_byte c =
     (let n = (of_char c :: nat) in if 65 \<le> n \<and> n \<le> 90 then char_of (n + 32) else c)"

definition ToLower_ascii :: "string \<Rightarrow> string" where
  "ToLower_ascii s = map lower_byte s"

text \<open>
  The conversion \<open>float64(x)\<close> of an int64: the nearest value with a significand of 53
  bits, ties to the even significand. The result is an integer, so it is given as an
  \<open>int\<close>. \<open>bitlen n\<close> is the number of binary digits of \<open>n\<close>.
\<close>

fun bitlen :: "nat \<Rightarrow> nat" where
  "bitlen n = (if n = 0 then 0 else Suc (bitlen (n div 2)))"

declare bitlen.simps [simp del]

definition round_to_float64 :: "nat \<Rightarrow> nat" where
  "round_to_float64 n =
     (if n < 2 ^ 53 then n
      else let e = bitlen n - 53; q = n div 2 ^ e; r = n mod 2 ^ e in
        if 2 * r < 2 ^ e then q * 2 ^ e
        else if 2 ^ e < 2 * r then (q + 1) * 2 ^ e
        else if even q then q * 2 ^ e
        else (q + 1) * 2 ^ e)"

definition float64 :: "int64 \<Rightarrow> int" where
  "float64 x =
     (if sint x < 0 then - int (round_to_float64 (nat (- sint x)))
      else int (round_to_float64 (nat (sint x))))"

subsection \<open>Descriptors and constant metrics (prometheus client)\<close>

record Desc =
  fqName :: string
  helpText :: string
  variableLabels :: "string list"

definition NewDesc :: "string \<Rightarrow> string \<Rightarrow> string list \<Rightarrow> Desc" where
  "NewDesc name h labels = \<lparr>fqName = name, helpText = h, variableLabels = labels\<rparr>"

datatype ValueType = CounterValue | GaugeValue | UntypedValue

text \<open>
  A constant metric as \<open>MustNewConstMetric\<close> builds it. Its value is a float64 in the
  source; every value the collector passes is an integer: a counter of list elements,
  or the conversion \<open>float64(...)\<close> of an int64 number of seconds, rounded as \<open>float64\<close>
  above says. The field holds that integer. \<open>MustNewConstMetric\<close> panics when the number
  of label values differs from the descriptor's number of labels; \<open>conforms\<close> is that
  check.
\<close>

record Metric =
  desc :: Desc
  valueType :: ValueType
  val :: int
  labelValues :: "string list"

definition MustNewConstMetric :: "Desc \<Rightarrow> ValueType \<Rightarrow> int \<Rightarrow> string list \<Rightarrow> Metric" where
  "MustNewConstMetric d t v lvs = \<lparr>desc = d, valueType = t, val = v, labelValues = lvs\<rparr>"

definition conforms :: "Metric \<Rightarrow> bool" where
  "conforms m = (length (labelValues m) = length (variableLabels (desc m)))"

subsection \<open>Constants and descriptors of the collector\<close>

definition completeRolloutCount :: string where
  "completeRolloutCount = ''complete_rollouts_total''"

definition activeRolloutDurationSeconds :: string where
  "activeRolloutDurationSeconds = ''active_rollouts_duration_seconds''"

definition lastFailedRolloutTime :: string where
  "lastFailedRolloutTime = ''last_failed_rollout_time''"

definition availablePhase :: string where
  "availablePhase = ''available''"

definition failedPhase :: string where
  "failedPhase = ''failed''"

definition cancelledPhase :: string where
  "cancelledPhase = ''cancelled''"

definition nameToQuery :: "string \<Rightarrow> string" where
  "nameToQuery name = Join [''openshift_apps_deploymentconfigs'', name] ''_''"

definition completeRolloutCountDesc :: Desc where
  "completeRolloutCountDesc =
     NewDesc (nameToQuery completeRolloutCount) ''Counts total complete rollouts'' [''phase'']"

definition lastFailedRolloutTimeDesc :: Desc where
  "lastFailedRolloutTimeDesc =
     NewDesc (nameToQuery lastFailedRolloutTime)
       ''Tracks the time of last failure rollout per deployment config''
       [''namespace'', ''name'', ''generation'']"

definition activeRolloutDurationSecondsDesc :: Desc where
  "activeRolloutDurationSecondsDesc =
     NewDesc (nameToQuery activeRolloutDurationSeconds)
       ''Tracks the active rollout duration in seconds''
       [''namespace'', ''name'', ''phase'', ''generation'']"

subsection \<open>Rollout resources\<close>

text \<open>
  Modelled from the spec: the replication controller and the helpers of package
  \<open>util\<close> (\<open>DeploymentConfigNameFor\<close>, \<open>IsTerminatedDeployment\<close>,
  \<open>IsDeploymentCancelled\<close>, \<open>IsFailedDeployment\<close>, \<open>IsCompleteDeployment\<close>,
  \<open>DeploymentStatusFor\<close>), which are not among the source files. The spec's data model
  gives a rollout resource a logical-workload name (may be empty), a namespace, a
  creation timestamp, an observed generation, a termination classification (one of
  none, cancelled, failed, complete) and a free-text phase string; the collector takes
  the helpers' answers as given facts. \<open>CreationTimestamp\<close> is the value of
  \<open>d.CreationTimestamp.Unix()\<close>, \<open>ObservedGeneration\<close> is \<open>d.Status.ObservedGeneration\<close>.
\<close>

datatype termination_class = NotTerminated | Cancelled | Failed | Complete

record ReplicationController =
  Namespace :: string
  CreationTimestamp :: int64
  ObservedGeneration :: int64
  workloadName :: string
  terminationClass :: termination_class
  phaseText :: string

definition DeploymentConfigNameFor :: "ReplicationController \<Rightarrow> string" where
  "DeploymentConfigNameFor d = workloadName d"

definition IsTerminatedDeployment :: "ReplicationController \<Rightarrow> bool" where
  "IsTerminatedDeployment d = (terminationClass d \<noteq> NotTerminated)"

definition IsDeploymentCancelled :: "ReplicationController \<Rightarrow> bool" where
  "IsDeploymentCancelled d = (terminationClass d = Cancelled)"

definition IsFailedDeployment :: "ReplicationController \<Rightarrow> bool" where
  "IsFailedDeployment d = (terminationClass d = Failed)"

definition IsCompleteDeployment :: "ReplicationController \<Rightarrow> bool" where
  "IsCompleteDeployment d = (terminationClass d = Complete)"

definition DeploymentStatusFor :: "ReplicationController \<Rightarrow> string" where
  "DeploymentStatusFor d = phaseText d"

subsection \<open>The collector\<close>

text \<open>
  \<open>lister\<close> holds what \<open>c.lister.List(labels.Everything())\<close> returns at this scrape:
  \<open>Inl err\<close> when the fetch fails, \<open>Inr result\<close> otherwise.
\<close>

record appsCollector =
  lister :: "string + ReplicationController list"

definition Describe :: "appsCollector \<Rightarrow> Desc list" where
  "Describe c = [completeRolloutCountDesc, activeRolloutDurationSecondsDesc]"

text \<open>
  \<open>timestamp\<close> is a float64 in the source, always the conversion \<open>float64(...)\<close> of an
  int64 number of seconds; the field holds the integer that the conversion gives.
\<close>

record failedRollout =
  timestamp :: int
  generation :: int64

text \<open>
  The local state of one run of \<open>Collect\<close>: the three counters (float64 in the source,
  only ever incremented by one from zero, hence a natural number), the map
  \<open>latestFailedRollouts\<close>, the samples sent so far, and the number of calls of
  \<open>time.Now()\<close> made so far. The map is a list of key and value pairs with distinct
  keys, read with \<open>map_of\<close> and written with \<open>AList.update\<close>; Go leaves the order
  of iteration over a map open, the model iterates in the order of the list.
\<close>

record pass =
  available :: nat
  failed :: nat
  cancelled :: nat
  latestFailedRollouts :: "(string \<times> failedRollout) list"
  ch :: "Metric list"
  nows :: nat

definition start :: pass where
  "start = \<lparr>available = 0, failed = 0, cancelled = 0, latestFailedRollouts = [],
            ch = [], nows = 0\<rparr>"

text \<open>
  Lines 124 to 142, the rest of the loop body that a resource reaches when no
  \<open>continue\<close> was taken. \<open>clock k\<close> is the reading \<open>time.Now().Unix()\<close> of the
  \<open>k\<close>-th call (counted from zero) in this run; the subtraction is int64 subtraction,
  and its result is converted to float64.
\<close>

definition active ::
  "(string \<Rightarrow> string) \<Rightarrow> (nat \<Rightarrow> int64) \<Rightarrow> ReplicationController \<Rightarrow> string \<Rightarrow> pass \<Rightarrow> pass" where
  "active ToLower clock d dcName s =
     (let phase = ToLower (DeploymentStatusFor d);
          phase = (if length phase = 0 then ''unknown'' else phase);
          durationSeconds = clock (nows s) - CreationTimestamp d
      in s\<lparr>ch := ch s @ [MustNewConstMetric activeRolloutDurationSecondsDesc CounterValue
                 (float64 durationSeconds)
                 [Namespace d, dcName, phase, Sprintf_d (ObservedGeneration d)]],
            nows := Suc (nows s)\<rparr>)"

text \<open>Lines 100 to 116: the failed counter and the update of the latest failed rollout.\<close>

definition trackFailed :: "ReplicationController \<Rightarrow> string \<Rightarrow> pass \<Rightarrow> pass" where
  "trackFailed d dcName s =
     (let s1 = s\<lparr>failed := failed s + 1\<rparr>;
          key = Namespace d @ ''/'' @ dcName;
          shouldUpdate =
            (case map_of (latestFailedRollouts s1) key of
               Some r \<Rightarrow> sint (ObservedGeneration d) > sint (generation r)
             | None \<Rightarrow> False)
      in if shouldUpdate
         then s1\<lparr>latestFailedRollouts :=
                   AList.update key
                     \<lparr>timestamp = float64 (CreationTimestamp d),
                      generation = ObservedGeneration d\<rparr>
                     (latestFailedRollouts s1)\<rparr>
         else s1)"

text \<open>One iteration of the loop over \<open>result\<close> (lines 89 to 143).\<close>

definition visit ::
  "(string \<Rightarrow> string) \<Rightarrow> (nat \<Rightarrow> int64) \<Rightarrow> ReplicationController \<Rightarrow> pass \<Rightarrow> pass" where
  "visit ToLower clock d s =
     (let dcName = DeploymentConfigNameFor d in
      if length dcName = 0 then s
      else if IsTerminatedDeployment d then
        (if IsDeploymentCancelled d then s\<lparr>cancelled := cancelled s + 1\<rparr>
         else if IsFailedDeployment d then trackFailed d dcName s
         else if IsCompleteDeployment d then s\<lparr>available := available s + 1\<rparr>
         else active ToLower clock d dcName s)
      else active ToLower clock d dcName s)"

fun loop ::
  "(string \<Rightarrow> string) \<Rightarrow> (nat \<Rightarrow> int64) \<Rightarrow> ReplicationController list \<Rightarrow> pass \<Rightarrow> pass" where
  "loop ToLower clock [] s = s"
| "loop ToLower clock (d # ds) s = loop ToLower clock ds (visit ToLower clock d s)"

text \<open>
  Lines 146 to 157: one sample for each entry of the map. \<open>parts[1]\<close> panics (index out
  of range) when the key holds no separator; the samples sent before stay sent.
\<close>

datatype exit = Returned | Panicked

fun recordLatest :: "(string \<times> failedRollout) list \<Rightarrow> Metric list \<Rightarrow> exit \<times> Metric list" where
  "recordLatest [] c = (Returned, c)"
| "recordLatest ((dc, r) # rest) c =
     (let parts = Split dc CHR ''/'' in
      if length parts < 2 then (Panicked, c)
      else recordLatest rest
             (c @ [MustNewConstMetric lastFailedRolloutTimeDesc GaugeValue (timestamp r)
                     [parts ! 0, parts ! 1, Sprintf_d (generation r)]]))"

text \<open>
  What one call of \<open>Collect\<close> does: the samples sent, the lines handed to
  \<open>glog.V(4).Infof\<close>, and whether the call returned or panicked.
\<close>

record scrape =
  sent :: "Metric list"
  logged :: "string list"
  exit :: exit

definition Collect_apps ::
  "(string \<Rightarrow> string) \<Rightarrow> appsCollector \<Rightarrow> (nat \<Rightarrow> int64) \<Rightarrow> scrape" where
  "Collect_apps ToLower c clock =
     (case lister c of
        Inl err \<Rightarrow>
          \<lparr>sent = [], logged = [''Collecting metrics for apps failed: '' @ err],
           exit = Returned\<rparr>
      | Inr result \<Rightarrow>
          (let s = loop ToLower clock result start in
           case recordLatest (latestFailedRollouts s) (ch s) of
             (Panicked, c1) \<Rightarrow> \<lparr>sent = c1, logged = [], exit = Panicked\<rparr>
           | (Returned, c1) \<Rightarrow>
               \<lparr>sent = c1 @
                  [MustNewConstMetric completeRolloutCountDesc GaugeValue
                     (int (available s)) [availablePhase],
                   MustNewConstMetric completeRolloutCountDesc GaugeValue
                     (int (failed s)) [failedPhase],
                   MustNewConstMetric completeRolloutCountDesc GaugeValue
                     (int (cancelled s)) [cancelledPhase]],
                logged = [], exit = Returned\<rparr>))"

section \<open>Auxiliary facts\<close>

lemma ToLower_ascii_Nil_iff: "(ToLower_ascii s = []) = (s = [])"
  by (simp add: ToLower_ascii_def)

text \<open>
  \<open>float64\<close> changes no integer of magnitude up to \<open>2 ^ 53\<close>, and int64 subtraction is
  the subtraction of the integers when the difference fits.
\<close>

lemma round_to_float64_small: "n < 2 ^ 53 \<Longrightarrow> round_to_float64 n = n"
  by (simp add: round_to_float64_def)

lemma bitlen_two_53: "bitlen 9007199254740992 = 54"
  by (simp add: bitlen.simps)

lemma round_to_float64_two_53: "round_to_float64 (2 ^ 53) = 2 ^ 53"
proof -
  have "round_to_float64 9007199254740992 = 9007199254740992"
    by (simp add: round_to_float64_def bitlen_two_53)
  then show ?thesis by simp
qed

lemma round_to_float64_tie: "round_to_float64 9007199254740993 = 9007199254740992"
proof -
  have "bitlen 9007199254740993 = 54" by (simp add: bitlen.simps)
  then show ?thesis by (simp add: round_to_float64_def)
qed

lemma round_to_float64_le: "n \<le> 2 ^ 53 \<Longrightarrow> round_to_float64 n = n"
  using round_to_float64_small [of n] round_to_float64_two_53
  by (cases "n = 2 ^ 53") simp_all

lemma float64_small: "\<bar>sint x\<bar> \<le> 2 ^ 53 \<Longrightarrow> float64 x = sint x"
proof -
  assume b: "\<bar>sint x\<bar> \<le> 2 ^ 53"
  show ?thesis
  proof (cases "sint x < 0")
    case True
    with b have "nat (- sint x) \<le> 2 ^ 53" by simp
    then have "round_to_float64 (nat (- sint x)) = nat (- sint x)"
      by (rule round_to_float64_le)
    with True show ?thesis by (simp add: float64_def)
  next
    case False
    with b have "nat (sint x) \<le> 2 ^ 53" by simp
    then have "round_to_float64 (nat (sint x)) = nat (sint x)"
      by (rule round_to_float64_le)
    with False show ?thesis by (simp add: float64_def)
  qed
qed

lemma descs_distinct:
  "activeRolloutDurationSecondsDesc \<noteq> completeRolloutCountDesc"
  "activeRolloutDurationSecondsDesc \<noteq> lastFailedRolloutTimeDesc"
  "completeRolloutCountDesc \<noteq> lastFailedRolloutTimeDesc"
  by (simp_all add: activeRolloutDurationSecondsDesc_def completeRolloutCountDesc_def
      lastFailedRolloutTimeDesc_def NewDesc_def)

lemma desc_MustNewConstMetric: "desc (MustNewConstMetric d t v lvs) = d"
  by (simp add: MustNewConstMetric_def)

lemma visit_empty_name: "DeploymentConfigNameFor d = [] \<Longrightarrow> visit ToLower clock d s = s"
  by (simp add: visit_def)

lemma visit_cancelled:
  "DeploymentConfigNameFor d \<noteq> [] \<Longrightarrow> IsDeploymentCancelled d \<Longrightarrow>
   visit ToLower clock d s = s\<lparr>cancelled := cancelled s + 1\<rparr>"
  by (simp add: visit_def IsDeploymentCancelled_def IsTerminatedDeployment_def)

lemma visit_failed:
  "DeploymentConfigNameFor d \<noteq> [] \<Longrightarrow> IsFailedDeployment d \<Longrightarrow>
   visit ToLower clock d s = trackFailed d (DeploymentConfigNameFor d) s"
  by (simp add: visit_def IsDeploymentCancelled_def IsTerminatedDeployment_def
      IsFailedDeployment_def)

lemma visit_complete:
  "DeploymentConfigNameFor d \<noteq> [] \<Longrightarrow> IsCompleteDeployment d \<Longrightarrow>
   visit ToLower clock d s = s\<lparr>available := available s + 1\<rparr>"
  by (simp add: visit_def IsDeploymentCancelled_def IsTerminatedDeployment_def
      IsFailedDeployment_def IsCompleteDeployment_def)

lemma visit_active:
  "DeploymentConfigNameFor d \<noteq> [] \<Longrightarrow> \<not> IsTerminatedDeployment d \<Longrightarrow>
   visit ToLower clock d s = active ToLower clock d (DeploymentConfigNameFor d) s"
  by (simp add: visit_def)

lemma class_cases:
  "IsDeploymentCancelled d \<or> IsFailedDeployment d \<or> IsCompleteDeployment d \<or>
   \<not> IsTerminatedDeployment d"
  by (cases "terminationClass d")
    (simp_all add: IsDeploymentCancelled_def IsTerminatedDeployment_def
      IsFailedDeployment_def IsCompleteDeployment_def)

lemma class_exclusive:
  "IsDeploymentCancelled d \<Longrightarrow> \<not> IsFailedDeployment d \<and> \<not> IsCompleteDeployment d \<and> IsTerminatedDeployment d"
  "IsFailedDeployment d \<Longrightarrow> \<not> IsDeploymentCancelled d \<and> \<not> IsCompleteDeployment d \<and> IsTerminatedDeployment d"
  "IsCompleteDeployment d \<Longrightarrow> \<not> IsDeploymentCancelled d \<and> \<not> IsFailedDeployment d \<and> IsTerminatedDeployment d"
  by (simp_all add: IsDeploymentCancelled_def IsTerminatedDeployment_def
      IsFailedDeployment_def IsCompleteDeployment_def)

lemma trackFailed_absent:
  "map_of (latestFailedRollouts s) (Namespace d @ ''/'' @ n) = None \<Longrightarrow>
   trackFailed d n s = s\<lparr>failed := failed s + 1\<rparr>"
  by (simp add: trackFailed_def Let_def)

lemma trackFailed_newer:
  "map_of (latestFailedRollouts s) (Namespace d @ ''/'' @ n) = Some r \<Longrightarrow>
   sint (generation r) < sint (ObservedGeneration d) \<Longrightarrow>
   trackFailed d n s =
     s\<lparr>failed := failed s + 1,
       latestFailedRollouts :=
         AList.update (Namespace d @ ''/'' @ n)
           \<lparr>timestamp = float64 (CreationTimestamp d), generation = ObservedGeneration d\<rparr>
           (latestFailedRollouts s)\<rparr>"
  by (simp add: trackFailed_def Let_def)

lemma visit_keeps_empty_index:
  "latestFailedRollouts s = [] \<Longrightarrow> latestFailedRollouts (visit ToLower clock d s) = []"
  using class_cases [of d]
  by (cases "DeploymentConfigNameFor d = []")
    (auto simp: visit_empty_name visit_cancelled visit_failed visit_complete visit_active
      trackFailed_absent active_def Let_def)

lemma loop_append: "loop ToLower clock (xs @ ys) s = loop ToLower clock ys (loop ToLower clock xs s)"
  by (induction xs arbitrary: s) simp_all

lemma loop_empty_index:
  "latestFailedRollouts s = [] \<Longrightarrow>
   loop ToLower clock ds s =
     s\<lparr>available := available s +
          length (filter (\<lambda>d. DeploymentConfigNameFor d \<noteq> [] \<and> IsCompleteDeployment d) ds),
       failed := failed s +
          length (filter (\<lambda>d. DeploymentConfigNameFor d \<noteq> [] \<and> IsFailedDeployment d) ds),
       cancelled := cancelled s +
          length (filter (\<lambda>d. DeploymentConfigNameFor d \<noteq> [] \<and> IsDeploymentCancelled d) ds),
       ch := ch s @
          map (\<lambda>(k, d). MustNewConstMetric activeRolloutDurationSecondsDesc CounterValue
                 (float64 (clock k - CreationTimestamp d))
                 [Namespace d, DeploymentConfigNameFor d,
                  if ToLower (DeploymentStatusFor d) = [] then ''unknown''
                  else ToLower (DeploymentStatusFor d),
                  Sprintf_d (ObservedGeneration d)])
            (enumerate (nows s)
               (filter (\<lambda>d. DeploymentConfigNameFor d \<noteq> [] \<and> \<not> IsTerminatedDeployment d) ds)),
       nows := nows s +
          length (filter (\<lambda>d. DeploymentConfigNameFor d \<noteq> [] \<and> \<not> IsTerminatedDeployment d) ds)\<rparr>"
proof (induction ds arbitrary: s)
  case Nil
  then show ?case by simp
next
  case (Cons d ds)
  note idx = Cons.prems
  show ?case
  proof (cases "DeploymentConfigNameFor d = []")
    case True
    then show ?thesis using Cons.IH [OF idx] by (simp add: visit_empty_name)
  next
    case False
    consider (c) "IsDeploymentCancelled d" | (f) "IsFailedDeployment d"
      | (a) "IsCompleteDeployment d" | (n) "\<not> IsTerminatedDeployment d"
      using class_cases [of d] by blast
    then show ?thesis
    proof cases
      case c
      have "latestFailedRollouts (s\<lparr>cancelled := cancelled s + 1\<rparr>) = []" using idx by simp
      from Cons.IH [OF this] show ?thesis
        using False c class_exclusive(1) [OF c] by (simp add: visit_cancelled)
    next
      case f
      have v: "visit ToLower clock d s = s\<lparr>failed := failed s + 1\<rparr>"
        using False f idx by (simp add: visit_failed trackFailed_absent)
      have "latestFailedRollouts (s\<lparr>failed := failed s + 1\<rparr>) = []" using idx by simp
      from Cons.IH [OF this] show ?thesis
        using False f class_exclusive(2) [OF f] by (simp add: v)
    next
      case a
      have "latestFailedRollouts (s\<lparr>available := available s + 1\<rparr>) = []" using idx by simp
      from Cons.IH [OF this] show ?thesis
        using False a class_exclusive(3) [OF a] by (simp add: visit_complete)
    next
      case n
      have nc: "\<not> IsDeploymentCancelled d" "\<not> IsFailedDeployment d" "\<not> IsCompleteDeployment d"
        using n class_exclusive [of d] by blast+
      have v: "visit ToLower clock d s =
        s\<lparr>ch := ch s @ [MustNewConstMetric activeRolloutDurationSecondsDesc CounterValue
                 (float64 (clock (nows s) - CreationTimestamp d))
                 [Namespace d, DeploymentConfigNameFor d,
                  if ToLower (DeploymentStatusFor d) = [] then ''unknown''
                  else ToLower (DeploymentStatusFor d),
                  Sprintf_d (ObservedGeneration d)]],
           nows := Suc (nows s)\<rparr>"
        using False n by (simp add: visit_active active_def Let_def)
      have "latestFailedRollouts (visit ToLower clock d s) = []" using idx by (simp add: v)
      from Cons.IH [OF this] show ?thesis
        using False n nc by (simp add: v)
    qed
  qed
qed


lemma sint_sub_no_wrap:
  fixes a b :: int64
  assumes "- (2 ^ 63) \<le> sint a - sint b" "sint a - sint b < 2 ^ 63"
  shows "sint (a - b) = sint a - sint b"
  using assms by (simp add: sint_word_ariths signed_take_bit_int_eq_self)

lemma duration_exact:
  fixes a b :: int64
  assumes "\<bar>sint a - sint b\<bar> \<le> 2 ^ 53"
  shows "float64 (a - b) = sint a - sint b"
proof -
  have "sint (a - b) = sint a - sint b"
    using assms by (intro sint_sub_no_wrap) simp_all
  with assms show ?thesis by (simp add: float64_small)
qed

lemma filter_all: "(\<And>x. x \<in> set xs \<Longrightarrow> P x) \<Longrightarrow> filter P xs = xs"
  by (induction xs) simp_all

lemma filter_none: "(\<And>x. x \<in> set xs \<Longrightarrow> \<not> P x) \<Longrightarrow> filter P xs = []"
  by (induction xs) simp_all

lemma start_fields:
  "available start = 0" "failed start = 0" "cancelled start = 0"
  "latestFailedRollouts start = []" "ch start = []" "nows start = 0"
  by (simp_all add: start_def)

lemma loop_start_index: "latestFailedRollouts (loop ToLower clock result start) = []"
  by (simp add: loop_empty_index [OF start_fields(4)] start_fields)

lemma loop_start_ch:
  "ch (loop ToLower clock result start) =
     map (\<lambda>(k, d). MustNewConstMetric activeRolloutDurationSecondsDesc CounterValue
            (float64 (clock k - CreationTimestamp d))
            [Namespace d, DeploymentConfigNameFor d,
             if ToLower (DeploymentStatusFor d) = [] then ''unknown''
             else ToLower (DeploymentStatusFor d),
             Sprintf_d (ObservedGeneration d)])
       (enumerate 0
          (filter (\<lambda>d. DeploymentConfigNameFor d \<noteq> [] \<and> \<not> IsTerminatedDeployment d) result))"
  by (simp add: loop_empty_index [OF start_fields(4)] start_fields)

lemma loop_start_counters:
  "available (loop ToLower clock result start) =
     length (filter (\<lambda>d. DeploymentConfigNameFor d \<noteq> [] \<and> IsCompleteDeployment d) result)"
  "failed (loop ToLower clock result start) =
     length (filter (\<lambda>d. DeploymentConfigNameFor d \<noteq> [] \<and> IsFailedDeployment d) result)"
  "cancelled (loop ToLower clock result start) =
     length (filter (\<lambda>d. DeploymentConfigNameFor d \<noteq> [] \<and> IsDeploymentCancelled d) result)"
  by (simp_all add: loop_empty_index [OF start_fields(4)] start_fields)

lemma Collect_apps_Inr:
  "Collect_apps ToLower \<lparr>lister = Inr result\<rparr> clock =
     \<lparr>sent = ch (loop ToLower clock result start) @
        [MustNewConstMetric completeRolloutCountDesc GaugeValue
           (int (available (loop ToLower clock result start))) [availablePhase],
         MustNewConstMetric completeRolloutCountDesc GaugeValue
           (int (failed (loop ToLower clock result start))) [failedPhase],
         MustNewConstMetric completeRolloutCountDesc GaugeValue
           (int (cancelled (loop ToLower clock result start))) [cancelledPhase]],
      logged = [], exit = Returned\<rparr>"
  by (simp add: Collect_apps_def Let_def loop_start_index)


lemma recordLatest_Nil: "recordLatest [] c = (Returned, c)"
  by simp



lemma terminated_split:
  "length (filter (\<lambda>d. DeploymentConfigNameFor d \<noteq> [] \<and> IsCompleteDeployment d) ds) +
   length (filter (\<lambda>d. DeploymentConfigNameFor d \<noteq> [] \<and> IsFailedDeployment d) ds) +
   length (filter (\<lambda>d. DeploymentConfigNameFor d \<noteq> [] \<and> IsDeploymentCancelled d) ds) =
   length (filter (\<lambda>d. DeploymentConfigNameFor d \<noteq> [] \<and> IsTerminatedDeployment d) ds)"
proof (induction ds)
  case Nil
  then show ?case by simp
next
  case (Cons d ds)
  then show ?case
    by (cases "terminationClass d")
      (simp_all add: IsDeploymentCancelled_def IsTerminatedDeployment_def
        IsFailedDeployment_def IsCompleteDeployment_def)
qed

lemma filter_desc_other:
  "(\<And>x. desc (f x) \<noteq> D) \<Longrightarrow> filter (\<lambda>m. desc m = D) (map f xs) = []"
  by (induction xs) simp_all

lemma filter_desc_same:
  "(\<And>x. desc (f x) = D) \<Longrightarrow> filter (\<lambda>m. desc m = D) (map f xs) = map f xs"
  by (induction xs) simp_all

lemma ch_loop_active_desc:
  "m \<in> set (ch (loop ToLower clock result start)) \<Longrightarrow> desc m = activeRolloutDurationSecondsDesc"
  by (auto simp: loop_start_ch desc_MustNewConstMetric)

lemma filter_ch_other:
  "D \<noteq> activeRolloutDurationSecondsDesc \<Longrightarrow>
   filter (\<lambda>m. desc m = D) (ch (loop ToLower clock result start)) = []"
  by (rule filter_none) (auto dest: ch_loop_active_desc)

lemma filter_ch_same:
  "filter (\<lambda>m. desc m = activeRolloutDurationSecondsDesc) (ch (loop ToLower clock result start)) =
   ch (loop ToLower clock result start)"
  by (rule filter_all) (auto dest: ch_loop_active_desc)

lemma no_last_failed_sample:
  "filter (\<lambda>m. desc m = lastFailedRolloutTimeDesc)
     (sent (Collect_apps ToLower \<lparr>lister = Inr result\<rparr> clock)) = []"
  using descs_distinct
  by (simp add: Collect_apps_Inr filter_ch_other desc_MustNewConstMetric)

text \<open>
  No call of \<open>MustNewConstMetric\<close> in a scrape can panic: every sample sent has as many
  label values as its descriptor has labels.
\<close>

lemma sent_conforms: "m \<in> set (sent (Collect_apps ToLower c clock)) \<Longrightarrow> conforms m"
proof (cases "lister c")
  case (Inl err)
  assume "m \<in> set (sent (Collect_apps ToLower c clock))"
  with Inl show ?thesis by (simp add: Collect_apps_def)
next
  case (Inr res)
  assume m: "m \<in> set (sent (Collect_apps ToLower c clock))"
  from Inr have "c = \<lparr>lister = Inr res\<rparr>" by (cases c) simp
  with m show ?thesis
    by (auto simp: Collect_apps_Inr loop_start_ch conforms_def MustNewConstMetric_def
        activeRolloutDurationSecondsDesc_def completeRolloutCountDesc_def NewDesc_def)
qed

text \<open>
  The scenario of a cancelled rollout followed by two failed rollouts of one workload,
  the second of a higher generation: the counters are 0, 2 and 1, and the only samples
  are the three counters.
\<close>

lemma scenario_cancelled_failed_failed:
  "map (\<lambda>m. (labelValues m, val m))
     (sent (Collect_apps ToLower_ascii
        \<lparr>lister = Inr
           [\<lparr>Namespace = ''ns'', CreationTimestamp = 100, ObservedGeneration = 1,
             workloadName = ''a'', terminationClass = Cancelled, phaseText = ''Failed''\<rparr>,
            \<lparr>Namespace = ''ns'', CreationTimestamp = 200, ObservedGeneration = 1,
             workloadName = ''b'', terminationClass = Failed, phaseText = ''Failed''\<rparr>,
            \<lparr>Namespace = ''ns'', CreationTimestamp = 300, ObservedGeneration = 2,
             workloadName = ''b'', terminationClass = Failed, phaseText = ''Failed''\<rparr>]\<rparr>
        (\<lambda>k. 1000))) =
   [([''available''], 0), ([''failed''], 2), ([''cancelled''], 1)]"
  by (simp add: Collect_apps_def Let_def start_def visit_def trackFailed_def
      DeploymentConfigNameFor_def IsTerminatedDeployment_def IsDeploymentCancelled_def
      IsFailedDeployment_def IsCompleteDeployment_def MustNewConstMetric_def
      availablePhase_def failedPhase_def cancelledPhase_def)

text \<open>The duration samples of a scrape, as the loop sends them.\<close>

lemma duration_samples:
  "filter (\<lambda>m. desc m = activeRolloutDurationSecondsDesc)
     (sent (Collect_apps ToLower \<lparr>lister = Inr result\<rparr> clock)) =
   map (\<lambda>(k, d). MustNewConstMetric activeRolloutDurationSecondsDesc CounterValue
          (float64 (clock k - CreationTimestamp d))
          [Namespace d, DeploymentConfigNameFor d,
           if ToLower (DeploymentStatusFor d) = [] then ''unknown''
           else ToLower (DeploymentStatusFor d),
           Sprintf_d (ObservedGeneration d)])
     (enumerate 0
        (filter (\<lambda>d. DeploymentConfigNameFor d \<noteq> [] \<and> \<not> IsTerminatedDeployment d) result))"
proof -
  have "filter (\<lambda>m. desc m = activeRolloutDurationSecondsDesc)
      (sent (Collect_apps ToLower \<lparr>lister = Inr result\<rparr> clock)) =
      ch (loop ToLower clock result start)"
    using descs_distinct(1)
    by (simp add: Collect_apps_Inr filter_ch_same desc_MustNewConstMetric)
  then show ?thesis by (simp only: loop_start_ch)
qed

lemma duration_triples:
  "map (\<lambda>m. (labelValues m ! 0, labelValues m ! 1, val m))
     (filter (\<lambda>m. desc m = activeRolloutDurationSecondsDesc)
        (sent (Collect_apps ToLower \<lparr>lister = Inr result\<rparr> clock))) =
   map (\<lambda>(k, d). (Namespace d, DeploymentConfigNameFor d,
          float64 (clock k - CreationTimestamp d)))
     (enumerate 0
        (filter (\<lambda>d. DeploymentConfigNameFor d \<noteq> [] \<and> \<not> IsTerminatedDeployment d) result))"
  unfolding duration_samples map_map
  by (rule map_cong) (auto simp: MustNewConstMetric_def)

lemma duration_values:
  "map val (filter (\<lambda>m. desc m = activeRolloutDurationSecondsDesc)
     (sent (Collect_apps ToLower \<lparr>lister = Inr result\<rparr> clock))) =
   map (\<lambda>(k, d). float64 (clock k - CreationTimestamp d))
     (enumerate 0
        (filter (\<lambda>d. DeploymentConfigNameFor d \<noteq> [] \<and> \<not> IsTerminatedDeployment d) result))"
  unfolding duration_samples map_map
  by (rule map_cong) (auto simp: MustNewConstMetric_def)


section \<open>Properties of the collector\<close>

subsection \<open>The latest failed rollout\<close>

text \<open>
  C1. When the loop body meets a failed resource (with a workload name) whose key
  \<open>namespace/name\<close> has no entry in \<open>latestFailedRollouts\<close>, the only effect is the
  increment of the failed counter: no entry is created, the key stays absent, nothing
  is sent, and a scrape of that single resource sends no \<open>last_failed_rollout_time\<close>
  sample.
\<close>

theorem first_failure_creates_no_entry:
  assumes "DeploymentConfigNameFor d \<noteq> []" and "IsFailedDeployment d"
    and "map_of (latestFailedRollouts s) (Namespace d @ ''/'' @ DeploymentConfigNameFor d) = None"
  shows "visit ToLower clock d s = s\<lparr>failed := failed s + 1\<rparr> \<and>
    latestFailedRollouts (visit ToLower clock d s) = latestFailedRollouts s \<and>
    map_of (latestFailedRollouts (visit ToLower clock d s))
      (Namespace d @ ''/'' @ DeploymentConfigNameFor d) = None \<and>
    ch (visit ToLower clock d s) = ch s \<and>
    filter (\<lambda>m. desc m = lastFailedRolloutTimeDesc)
      (sent (Collect_apps ToLower \<lparr>lister = Inr [d]\<rparr> clock)) = []"
proof -
  have v: "visit ToLower clock d s = s\<lparr>failed := failed s + 1\<rparr>"
    using assms by (simp add: visit_failed trackFailed_absent)
  show ?thesis using assms(3) no_last_failed_sample [of ToLower "[d]" clock] by (simp add: v)
qed

theorem first_failure_creates_no_entry_witness:
  "DeploymentConfigNameFor
     \<lparr>Namespace = ''ns'', CreationTimestamp = 100, ObservedGeneration = 1,
      workloadName = ''b'', terminationClass = Failed, phaseText = ''Failed''\<rparr> \<noteq> [] \<and>
   IsFailedDeployment
     \<lparr>Namespace = ''ns'', CreationTimestamp = 100, ObservedGeneration = 1,
      workloadName = ''b'', terminationClass = Failed, phaseText = ''Failed''\<rparr> \<and>
   map_of (latestFailedRollouts start) ''ns/b'' = None \<and>
   latestFailedRollouts
     (visit ToLower_ascii (\<lambda>k. 1000)
        \<lparr>Namespace = ''ns'', CreationTimestamp = 100, ObservedGeneration = 1,
         workloadName = ''b'', terminationClass = Failed, phaseText = ''Failed''\<rparr> start) = [] \<and>
   failed
     (visit ToLower_ascii (\<lambda>k. 1000)
        \<lparr>Namespace = ''ns'', CreationTimestamp = 100, ObservedGeneration = 1,
         workloadName = ''b'', terminationClass = Failed, phaseText = ''Failed''\<rparr> start) = 1"
proof -
  let ?d = "\<lparr>Namespace = ''ns'', CreationTimestamp = 100, ObservedGeneration = 1,
      workloadName = ''b'', terminationClass = Failed, phaseText = ''Failed''\<rparr>"
  have h1: "DeploymentConfigNameFor ?d \<noteq> []" by (simp add: DeploymentConfigNameFor_def)
  have h2: "IsFailedDeployment ?d" by (simp add: IsFailedDeployment_def)
  have h3: "map_of (latestFailedRollouts start)
      (Namespace ?d @ ''/'' @ DeploymentConfigNameFor ?d) = None"
    by (simp add: start_def)
  from first_failure_creates_no_entry
    [OF h1 h2 h3, where ToLower = ToLower_ascii and clock = "\<lambda>k. 1000"]
  show ?thesis using h1 h2 by (simp add: start_def)
qed

text \<open>
  C2. An iteration started with an empty \<open>latestFailedRollouts\<close> leaves it empty, so the
  map is empty after the loop over any resource list, and no scrape, whatever the lister
  returns, sends a \<open>last_failed_rollout_time\<close> sample.
\<close>

theorem latest_failure_index_always_empty:
  "latestFailedRollouts (visit ToLower clock d (s\<lparr>latestFailedRollouts := []\<rparr>)) = [] \<and>
   latestFailedRollouts (loop ToLower clock result start) = [] \<and>
   filter (\<lambda>m. desc m = lastFailedRolloutTimeDesc) (sent (Collect_apps ToLower c clock)) = []"
proof -
  have a: "latestFailedRollouts (visit ToLower clock d (s\<lparr>latestFailedRollouts := []\<rparr>)) = []"
    by (rule visit_keeps_empty_index) simp
  have b: "filter (\<lambda>m. desc m = lastFailedRolloutTimeDesc) (sent (Collect_apps ToLower c clock)) = []"
  proof (cases "lister c")
    case (Inl err)
    then show ?thesis by (simp add: Collect_apps_def)
  next
    case (Inr res)
    then have "c = \<lparr>lister = Inr res\<rparr>" by (cases c) simp
    then show ?thesis by (simp add: no_last_failed_sample)
  qed
  show ?thesis using a b loop_start_index by simp
qed

text \<open>
  C6. When the loop body meets a failed resource (with a workload name) whose key has an
  entry of a smaller generation, the entry of that key becomes the resource's creation
  time (as \<open>float64\<close> converts it) and observed generation, every other key keeps its
  entry, and the old record is gone. The state is any state of the loop: this is a
  property of lines 104 to 115 taken by themselves, since by C2 the map holds no entry
  in any state that a run of \<open>Collect\<close> reaches.
\<close>

theorem newer_failure_replaces_entry:
  assumes "DeploymentConfigNameFor d \<noteq> []" and "IsFailedDeployment d"
    and "map_of (latestFailedRollouts s) (Namespace d @ ''/'' @ DeploymentConfigNameFor d) = Some r"
    and "sint (generation r) < sint (ObservedGeneration d)"
  shows "map_of (latestFailedRollouts (visit ToLower clock d s)) =
      (map_of (latestFailedRollouts s))
        (Namespace d @ ''/'' @ DeploymentConfigNameFor d \<mapsto>
           \<lparr>timestamp = float64 (CreationTimestamp d), generation = ObservedGeneration d\<rparr>) \<and>
    map_of (latestFailedRollouts (visit ToLower clock d s))
      (Namespace d @ ''/'' @ DeploymentConfigNameFor d) \<noteq> Some r \<and>
    failed (visit ToLower clock d s) = failed s + 1"
proof -
  have v: "visit ToLower clock d s =
      s\<lparr>failed := failed s + 1,
        latestFailedRollouts :=
          AList.update (Namespace d @ ''/'' @ DeploymentConfigNameFor d)
            \<lparr>timestamp = float64 (CreationTimestamp d), generation = ObservedGeneration d\<rparr>
            (latestFailedRollouts s)\<rparr>"
    using assms by (simp add: visit_failed trackFailed_newer)
  have "generation r \<noteq> ObservedGeneration d"
    using assms(4) by auto
  then have "\<lparr>timestamp = float64 (CreationTimestamp d), generation = ObservedGeneration d\<rparr> \<noteq> r"
    by auto
  then show ?thesis by (simp add: v update_conv')
qed

theorem newer_failure_replaces_entry_witness:
  "DeploymentConfigNameFor
     \<lparr>Namespace = ''ns'', CreationTimestamp = 200, ObservedGeneration = 2,
      workloadName = ''b'', terminationClass = Failed, phaseText = ''Failed''\<rparr> \<noteq> [] \<and>
   IsFailedDeployment
     \<lparr>Namespace = ''ns'', CreationTimestamp = 200, ObservedGeneration = 2,
      workloadName = ''b'', terminationClass = Failed, phaseText = ''Failed''\<rparr> \<and>
   map_of (latestFailedRollouts
      (start\<lparr>latestFailedRollouts := [(''ns/b'', \<lparr>timestamp = 100, generation = 1\<rparr>)]\<rparr>))
      ''ns/b'' = Some \<lparr>timestamp = 100, generation = 1\<rparr> \<and>
   sint (1 :: int64) < sint (2 :: int64) \<and>
   map_of (latestFailedRollouts
      (visit ToLower_ascii (\<lambda>k. 1000)
         \<lparr>Namespace = ''ns'', CreationTimestamp = 200, ObservedGeneration = 2,
          workloadName = ''b'', terminationClass = Failed, phaseText = ''Failed''\<rparr>
         (start\<lparr>latestFailedRollouts := [(''ns/b'', \<lparr>timestamp = 100, generation = 1\<rparr>)]\<rparr>)))
      ''ns/b'' = Some \<lparr>timestamp = 200, generation = 2\<rparr>"
proof -
  let ?d = "\<lparr>Namespace = ''ns'', CreationTimestamp = 200, ObservedGeneration = 2,
      workloadName = ''b'', terminationClass = Failed, phaseText = ''Failed''\<rparr>"
  let ?r = "\<lparr>timestamp = 100, generation = 1\<rparr>"
  let ?s = "start\<lparr>latestFailedRollouts := [(''ns/b'', ?r)]\<rparr>"
  have h1: "DeploymentConfigNameFor ?d \<noteq> []" by (simp add: DeploymentConfigNameFor_def)
  have h2: "IsFailedDeployment ?d" by (simp add: IsFailedDeployment_def)
  have h3: "map_of (latestFailedRollouts ?s)
      (Namespace ?d @ ''/'' @ DeploymentConfigNameFor ?d) = Some ?r"
    by (simp add: DeploymentConfigNameFor_def)
  have h4: "sint (generation ?r) < sint (ObservedGeneration ?d)" by simp
  from newer_failure_replaces_entry
    [OF h1 h2 h3 h4, where ToLower = ToLower_ascii and clock = "\<lambda>k. 1000"]
  have "map_of (latestFailedRollouts (visit ToLower_ascii (\<lambda>k. 1000) ?d ?s)) ''ns/b'' =
      Some \<lparr>timestamp = 200, generation = 2\<rparr>"
    by (simp add: DeploymentConfigNameFor_def float64_small)
  then show ?thesis using h1 h2 by simp
qed

subsection \<open>Failure of the fetch\<close>

text \<open>
  C5. When the lister returns an error, \<open>Collect\<close> sends no sample, hands one line to
  the log and returns normally.
\<close>

theorem fetch_failure_sends_nothing:
  "Collect_apps ToLower \<lparr>lister = Inl err\<rparr> clock =
     \<lparr>sent = [], logged = [''Collecting metrics for apps failed: '' @ err],
      exit = Returned\<rparr>"
  by (simp add: Collect_apps_def)

subsection \<open>Duration samples of active rollouts\<close>

text \<open>
  C3, as the code has it. The \<open>active_rollouts_duration_seconds\<close> samples of a scrape
  are, in list order, one for each resource that has a workload name and is not
  terminated, and no others. The value of the \<open>k\<close>-th of them is \<open>float64\<close> of the int64
  difference between the reading of the clock at its turn and the resource's creation
  time. Whenever these differences are of magnitude at most \<open>2 ^ 53\<close>, the values are the
  differences themselves, in whole seconds (negative when the creation time is ahead of
  the clock).
\<close>

theorem duration_samples_of_scrape:
  "map (\<lambda>m. (labelValues m ! 0, labelValues m ! 1, val m))
     (filter (\<lambda>m. desc m = activeRolloutDurationSecondsDesc)
        (sent (Collect_apps ToLower \<lparr>lister = Inr result\<rparr> clock))) =
   map (\<lambda>(k, d). (Namespace d, DeploymentConfigNameFor d,
          float64 (clock k - CreationTimestamp d)))
     (enumerate 0
        (filter (\<lambda>d. DeploymentConfigNameFor d \<noteq> [] \<and> \<not> IsTerminatedDeployment d) result)) \<and>
   ((\<forall>(k, d) \<in> set (enumerate 0
        (filter (\<lambda>d. DeploymentConfigNameFor d \<noteq> [] \<and> \<not> IsTerminatedDeployment d) result)).
      \<bar>sint (clock k) - sint (CreationTimestamp d)\<bar> \<le> 2 ^ 53) \<longrightarrow>
    map val (filter (\<lambda>m. desc m = activeRolloutDurationSecondsDesc)
      (sent (Collect_apps ToLower \<lparr>lister = Inr result\<rparr> clock))) =
    map (\<lambda>(k, d). sint (clock k) - sint (CreationTimestamp d))
      (enumerate 0
        (filter (\<lambda>d. DeploymentConfigNameFor d \<noteq> [] \<and> \<not> IsTerminatedDeployment d) result)))"
proof (intro conjI impI)
  show "map (\<lambda>m. (labelValues m ! 0, labelValues m ! 1, val m))
     (filter (\<lambda>m. desc m = activeRolloutDurationSecondsDesc)
        (sent (Collect_apps ToLower \<lparr>lister = Inr result\<rparr> clock))) =
   map (\<lambda>(k, d). (Namespace d, DeploymentConfigNameFor d,
          float64 (clock k - CreationTimestamp d)))
     (enumerate 0
        (filter (\<lambda>d. DeploymentConfigNameFor d \<noteq> [] \<and> \<not> IsTerminatedDeployment d) result))"
    by (rule duration_triples)
next
  let ?act = "enumerate 0
    (filter (\<lambda>d. DeploymentConfigNameFor d \<noteq> [] \<and> \<not> IsTerminatedDeployment d) result)"
  assume b: "\<forall>(k, d) \<in> set ?act. \<bar>sint (clock k) - sint (CreationTimestamp d)\<bar> \<le> 2 ^ 53"
  have "map (\<lambda>(k, d). float64 (clock k - CreationTimestamp d)) ?act =
      map (\<lambda>(k, d). sint (clock k) - sint (CreationTimestamp d)) ?act"
  proof (rule map_cong)
    fix x assume x: "x \<in> set ?act"
    obtain k d where kd: "x = (k, d)" by (cases x)
    from b x kd have "\<bar>sint (clock k) - sint (CreationTimestamp d)\<bar> \<le> 2 ^ 53" by auto
    then have "float64 (clock k - CreationTimestamp d) =
        sint (clock k) - sint (CreationTimestamp d)"
      by (rule duration_exact)
    then show "(case x of (k, d) \<Rightarrow> float64 (clock k - CreationTimestamp d)) =
        (case x of (k, d) \<Rightarrow> sint (clock k) - sint (CreationTimestamp d))"
      by (simp add: kd)
  qed simp
  then show "map val (filter (\<lambda>m. desc m = activeRolloutDurationSecondsDesc)
      (sent (Collect_apps ToLower \<lparr>lister = Inr result\<rparr> clock))) =
    map (\<lambda>(k, d). sint (clock k) - sint (CreationTimestamp d)) ?act"
    by (simp only: duration_values)
qed

theorem duration_samples_of_scrape_witness:
  "\<bar>sint (1000 :: int64) - sint (400 :: int64)\<bar> \<le> 2 ^ 53 \<and>
   \<bar>sint (1000 :: int64) - sint (1400 :: int64)\<bar> \<le> 2 ^ 53 \<and>
   map val (filter (\<lambda>m. desc m = activeRolloutDurationSecondsDesc)
     (sent (Collect_apps ToLower_ascii
        \<lparr>lister = Inr
           [\<lparr>Namespace = ''ns'', CreationTimestamp = 400, ObservedGeneration = 12,
             workloadName = ''c'', terminationClass = NotTerminated, phaseText = []\<rparr>,
            \<lparr>Namespace = ''ns'', CreationTimestamp = 100, ObservedGeneration = 3,
             workloadName = ''a'', terminationClass = Complete, phaseText = ''Complete''\<rparr>,
            \<lparr>Namespace = ''ns'', CreationTimestamp = 1400, ObservedGeneration = 4,
             workloadName = ''e'', terminationClass = NotTerminated,
             phaseText = ''Running''\<rparr>]\<rparr>
        (\<lambda>k. 1000)))) = [600, - 400]"
proof -
  let ?d1 = "\<lparr>Namespace = ''ns'', CreationTimestamp = 400, ObservedGeneration = 12,
      workloadName = ''c'', terminationClass = NotTerminated, phaseText = []\<rparr>"
  let ?d2 = "\<lparr>Namespace = ''ns'', CreationTimestamp = 100, ObservedGeneration = 3,
      workloadName = ''a'', terminationClass = Complete, phaseText = ''Complete''\<rparr>"
  let ?d3 = "\<lparr>Namespace = ''ns'', CreationTimestamp = 1400, ObservedGeneration = 4,
      workloadName = ''e'', terminationClass = NotTerminated, phaseText = ''Running''\<rparr>"
  have b1: "\<bar>sint (1000 :: int64) - sint (400 :: int64)\<bar> \<le> 2 ^ 53" by simp
  have b2: "\<bar>sint (1000 :: int64) - sint (1400 :: int64)\<bar> \<le> 2 ^ 53" by simp
  from duration_samples_of_scrape
    [where ToLower = ToLower_ascii and result = "[?d1, ?d2, ?d3]" and clock = "\<lambda>k. 1000"]
  show ?thesis
    using b1 b2 by (simp add: DeploymentConfigNameFor_def IsTerminatedDeployment_def)
qed

text \<open>
  The value is not always the difference: for a creation time \<open>2 ^ 53 + 1\<close> seconds
  before the reading of the clock, the sample carries \<open>2 ^ 53\<close>.
\<close>

theorem duration_value_counterexample:
  "map val (filter (\<lambda>m. desc m = activeRolloutDurationSecondsDesc)
     (sent (Collect_apps ToLower_ascii
        \<lparr>lister = Inr
           [\<lparr>Namespace = ''ns'', CreationTimestamp = - 9007199254739993,
             ObservedGeneration = 1, workloadName = ''c'',
             terminationClass = NotTerminated, phaseText = ''Running''\<rparr>]\<rparr>
        (\<lambda>k. 1000)))) = [9007199254740992] \<and>
   sint (1000 :: int64) - sint (- 9007199254739993 :: int64) = 9007199254740993"
proof -
  have "sint (1000 - (- 9007199254739993) :: int64) = 9007199254740993" by simp
  then have f: "float64 (1000 - (- 9007199254739993)) = 9007199254740992"
    by (simp add: float64_def round_to_float64_tie)
  have s: "sint (1000 :: int64) - sint (- 9007199254739993 :: int64) = 9007199254740993"
    by simp
  show ?thesis
    using f s
    by (simp add: duration_values DeploymentConfigNameFor_def IsTerminatedDeployment_def)
qed

text \<open>
  C9. A resource that reaches the active branch (it has a workload name and is not
  terminated) makes the loop body send one sample of the duration descriptor, whose
  label values are the namespace, the workload name, the lower-cased phase (\<open>unknown\<close>
  for the empty phase) and the observed generation in decimal, in the order of the
  descriptor's labels. What is taken from \<open>strings.ToLower\<close> is that it returns the empty
  string for the empty string only.
\<close>

theorem active_sample_labels:
  assumes "DeploymentConfigNameFor d \<noteq> []" and "\<not> IsTerminatedDeployment d"
    and "\<And>p. (ToLower p = []) = (p = [])"
  shows "map (\<lambda>m. (desc m, labelValues m)) (ch (visit ToLower clock d s)) =
      map (\<lambda>m. (desc m, labelValues m)) (ch s) @
      [(activeRolloutDurationSecondsDesc,
        [Namespace d, DeploymentConfigNameFor d,
         if DeploymentStatusFor d = [] then ''unknown''
         else ToLower (DeploymentStatusFor d),
         Sprintf_d (ObservedGeneration d)])] \<and>
    variableLabels activeRolloutDurationSecondsDesc =
      [''namespace'', ''name'', ''phase'', ''generation'']"
  using assms
  by (simp add: visit_active active_def Let_def MustNewConstMetric_def
      activeRolloutDurationSecondsDesc_def NewDesc_def)

theorem active_sample_labels_witness:
  "DeploymentConfigNameFor
     \<lparr>Namespace = ''ns'', CreationTimestamp = 400, ObservedGeneration = 12,
      workloadName = ''c'', terminationClass = NotTerminated, phaseText = ''RuNNing''\<rparr> \<noteq> [] \<and>
   \<not> IsTerminatedDeployment
     \<lparr>Namespace = ''ns'', CreationTimestamp = 400, ObservedGeneration = 12,
      workloadName = ''c'', terminationClass = NotTerminated, phaseText = ''RuNNing''\<rparr> \<and>
   (\<forall>p. (ToLower_ascii p = []) = (p = [])) \<and>
   ToLower_ascii ''RuNNing'' = ''running'' \<and>
   map labelValues (ch (visit ToLower_ascii (\<lambda>k. 1000)
     \<lparr>Namespace = ''ns'', CreationTimestamp = 400, ObservedGeneration = 12,
      workloadName = ''c'', terminationClass = NotTerminated, phaseText = ''RuNNing''\<rparr> start)) =
     [[''ns'', ''c'', ''running'', ''12'']] \<and>
   map labelValues (ch (visit ToLower_ascii (\<lambda>k. 1000)
     \<lparr>Namespace = ''ns'', CreationTimestamp = 400, ObservedGeneration = - 3,
      workloadName = ''c'', terminationClass = NotTerminated, phaseText = []\<rparr> start)) =
     [[''ns'', ''c'', ''unknown'', ''-3'']]"
proof -
  let ?d = "\<lparr>Namespace = ''ns'', CreationTimestamp = 400, ObservedGeneration = 12,
      workloadName = ''c'', terminationClass = NotTerminated, phaseText = ''RuNNing''\<rparr>"
  let ?e = "\<lparr>Namespace = ''ns'', CreationTimestamp = 400, ObservedGeneration = - 3,
      workloadName = ''c'', terminationClass = NotTerminated, phaseText = []\<rparr>"
  have d1: "DeploymentConfigNameFor ?d \<noteq> []" by (simp add: DeploymentConfigNameFor_def)
  have d2: "\<not> IsTerminatedDeployment ?d" by (simp add: IsTerminatedDeployment_def)
  have e1: "DeploymentConfigNameFor ?e \<noteq> []" by (simp add: DeploymentConfigNameFor_def)
  have e2: "\<not> IsTerminatedDeployment ?e" by (simp add: IsTerminatedDeployment_def)
  have g: "Sprintf_d 12 = ''12''" "Sprintf_d (- 3) = ''-3''" by code_simp+
  have l: "ToLower_ascii ''RuNNing'' = ''running''" by code_simp
  have "map (\<lambda>m. (desc m, labelValues m)) (ch (visit ToLower_ascii (\<lambda>k. 1000) ?d start)) =
      [(activeRolloutDurationSecondsDesc, [''ns'', ''c'', ''running'', ''12''])]"
    using active_sample_labels
      [OF d1 d2 ToLower_ascii_Nil_iff, where clock = "\<lambda>k. 1000" and s = start] g l
    by (simp add: start_def DeploymentConfigNameFor_def DeploymentStatusFor_def)
  then have a: "map labelValues (ch (visit ToLower_ascii (\<lambda>k. 1000) ?d start)) =
      [[''ns'', ''c'', ''running'', ''12'']]"
    by (auto simp: map_eq_Cons_conv)
  have "map (\<lambda>m. (desc m, labelValues m)) (ch (visit ToLower_ascii (\<lambda>k. 1000) ?e start)) =
      [(activeRolloutDurationSecondsDesc, [''ns'', ''c'', ''unknown'', ''-3''])]"
    using active_sample_labels
      [OF e1 e2 ToLower_ascii_Nil_iff, where clock = "\<lambda>k. 1000" and s = start] g
    by (simp add: start_def DeploymentConfigNameFor_def DeploymentStatusFor_def)
  then have b: "map labelValues (ch (visit ToLower_ascii (\<lambda>k. 1000) ?e start)) =
      [[''ns'', ''c'', ''unknown'', ''-3'']]"
    by (auto simp: map_eq_Cons_conv)
  show ?thesis using d1 d2 a b l ToLower_ascii_Nil_iff by simp
qed

subsection \<open>Counters of complete rollouts\<close>

text \<open>
  C4. After the loop over any resource list, the available, failed and cancelled
  counters are the numbers of resources with a workload name that are complete, failed
  and cancelled; their sum is the number of terminated resources with a workload name,
  so that resources without a name and resources that are not terminated count nowhere.
  The three values are those of the \<open>complete_rollouts_total\<close> samples of the scrape.
\<close>

theorem counters_count_terminated:
  "available (loop ToLower clock result start) =
     length (filter (\<lambda>d. DeploymentConfigNameFor d \<noteq> [] \<and> IsCompleteDeployment d) result) \<and>
   failed (loop ToLower clock result start) =
     length (filter (\<lambda>d. DeploymentConfigNameFor d \<noteq> [] \<and> IsFailedDeployment d) result) \<and>
   cancelled (loop ToLower clock result start) =
     length (filter (\<lambda>d. DeploymentConfigNameFor d \<noteq> [] \<and> IsDeploymentCancelled d) result) \<and>
   available (loop ToLower clock result start) + failed (loop ToLower clock result start) +
     cancelled (loop ToLower clock result start) =
     length (filter (\<lambda>d. DeploymentConfigNameFor d \<noteq> [] \<and> IsTerminatedDeployment d) result) \<and>
   map val (filter (\<lambda>m. desc m = completeRolloutCountDesc)
     (sent (Collect_apps ToLower \<lparr>lister = Inr result\<rparr> clock))) =
     [int (available (loop ToLower clock result start)), int (failed (loop ToLower clock result start)),
      int (cancelled (loop ToLower clock result start))]"
proof -
  have f: "filter (\<lambda>m. desc m = completeRolloutCountDesc) (ch (loop ToLower clock result start)) = []"
    using descs_distinct(1) by (intro filter_ch_other) simp
  have e: "map val (filter (\<lambda>m. desc m = completeRolloutCountDesc)
     (sent (Collect_apps ToLower \<lparr>lister = Inr result\<rparr> clock))) =
     [int (available (loop ToLower clock result start)), int (failed (loop ToLower clock result start)),
      int (cancelled (loop ToLower clock result start))]"
    by (simp add: Collect_apps_Inr f desc_MustNewConstMetric)
      (simp add: MustNewConstMetric_def)
  have t: "available (loop ToLower clock result start) + failed (loop ToLower clock result start) +
     cancelled (loop ToLower clock result start) =
     length (filter (\<lambda>d. DeploymentConfigNameFor d \<noteq> [] \<and> IsTerminatedDeployment d) result)"
    by (simp only: loop_start_counters terminated_split)
  show ?thesis
    by (intro conjI) (rule loop_start_counters e t)+
qed

text \<open>
  C7. A scrape whose fetch succeeds returns normally and sends exactly three samples of
  the \<open>complete_rollouts_total\<close> descriptor, labelled available, failed and cancelled
  in this order, whatever the counts are.
\<close>

theorem three_complete_rollout_samples:
  "map labelValues (filter (\<lambda>m. desc m = completeRolloutCountDesc)
     (sent (Collect_apps ToLower \<lparr>lister = Inr result\<rparr> clock))) =
     [[''available''], [''failed''], [''cancelled'']] \<and>
   exit (Collect_apps ToLower \<lparr>lister = Inr result\<rparr> clock) = Returned"
proof -
  have f: "filter (\<lambda>m. desc m = completeRolloutCountDesc) (ch (loop ToLower clock result start)) = []"
    using descs_distinct(1) by (intro filter_ch_other) simp
  show ?thesis
    by (simp add: Collect_apps_Inr f desc_MustNewConstMetric)
      (simp add: MustNewConstMetric_def availablePhase_def failedPhase_def cancelledPhase_def)
qed

subsection \<open>Resources without a workload name\<close>

text \<open>
  C8. A resource whose workload name is empty leaves the state of the loop as it is
  (counters, map, samples sent and clock reads), and a scrape of a list that holds it
  is the scrape of the list without it.
\<close>

theorem empty_name_is_skipped:
  assumes "DeploymentConfigNameFor d = []"
  shows "visit ToLower clock d s = s \<and>
    Collect_apps ToLower \<lparr>lister = Inr (xs @ d # ys)\<rparr> clock =
    Collect_apps ToLower \<lparr>lister = Inr (xs @ ys)\<rparr> clock"
proof -
  have "loop ToLower clock (xs @ d # ys) start = loop ToLower clock (xs @ ys) start"
    by (simp add: loop_append visit_empty_name [OF assms])
  then show ?thesis by (simp add: Collect_apps_Inr visit_empty_name [OF assms])
qed

theorem empty_name_is_skipped_witness:
  "DeploymentConfigNameFor
     \<lparr>Namespace = ''ns'', CreationTimestamp = 100, ObservedGeneration = 1,
      workloadName = '''', terminationClass = Failed, phaseText = ''Failed''\<rparr> = [] \<and>
   visit ToLower_ascii (\<lambda>k. 1000)
     \<lparr>Namespace = ''ns'', CreationTimestamp = 100, ObservedGeneration = 1,
      workloadName = '''', terminationClass = Failed, phaseText = ''Failed''\<rparr> start = start \<and>
   Collect_apps ToLower_ascii \<lparr>lister = Inr
     [\<lparr>Namespace = ''ns'', CreationTimestamp = 100, ObservedGeneration = 1,
       workloadName = '''', terminationClass = Failed, phaseText = ''Failed''\<rparr>]\<rparr> (\<lambda>k. 1000) =
   Collect_apps ToLower_ascii \<lparr>lister = Inr []\<rparr> (\<lambda>k. 1000)"
proof -
  let ?d = "\<lparr>Namespace = ''ns'', CreationTimestamp = 100, ObservedGeneration = 1,
      workloadName = '''', terminationClass = Failed, phaseText = ''Failed''\<rparr>"
  have h: "DeploymentConfigNameFor ?d = []" by (simp add: DeploymentConfigNameFor_def)
  from empty_name_is_skipped
    [OF h, where ToLower = ToLower_ascii and clock = "\<lambda>k. 1000" and s = start
      and xs = "[]" and ys = "[]"]
  show ?thesis using h by simp
qed

subsection \<open>Declared descriptors\<close>

text \<open>
  C10. \<open>Describe\<close> sends exactly two descriptors, the one of \<open>complete_rollouts_total\<close>
  and the one of \<open>active_rollouts_duration_seconds\<close>; the descriptor of
  \<open>last_failed_rollout_time\<close> is not among them.
\<close>

theorem Describe_two_descriptors:
  "Describe c = [completeRolloutCountDesc, activeRolloutDurationSecondsDesc] \<and>
   map fqName (Describe c) =
     [''openshift_apps_deploymentconfigs_complete_rollouts_total'',
      ''openshift_apps_deploymentconfigs_active_rollouts_duration_seconds''] \<and>
   lastFailedRolloutTimeDesc \<notin> set (Describe c) \<and>
   fqName lastFailedRolloutTimeDesc \<notin> set (map fqName (Describe c))"
  by (simp add: Describe_def completeRolloutCountDesc_def activeRolloutDurationSecondsDesc_def
      lastFailedRolloutTimeDesc_def NewDesc_def nameToQuery_def completeRolloutCount_def
      activeRolloutDurationSeconds_def lastFailedRolloutTime_def)

end
